theory Spec2Isabelle
  imports Main "HOL-Library.Word"
begin

section \<open>Background-removal service: values, configuration, string operations\<close>

text \<open>
  A shallow embedding of \<^verbatim>\<open>app.py\<close>. Python values are modelled as follows:
  \<^item> \<^verbatim>\<open>str\<close> is \<open>string\<close>, \<^verbatim>\<open>bytes\<close> is a list of 8-bit words;
  \<^item> an exception of class \<^verbatim>\<open>Exception\<close> is a value \<open>Exception cls msg\<close>, where \<open>msg\<close>
    is what \<^verbatim>\<open>str(e)\<close> returns; a call that may raise returns \<open>exn + 'a\<close>;
  \<^item> the uploaded file is werkzeug's \<^verbatim>\<open>FileStorage\<close>: a filename and a byte stream
    with a read position.
\<close>

type_synonym byte = "8 word"

datatype exn = Exception (class_name: string) (str_of: string)

subsection \<open>Configuration (lines 36-37)\<close>

definition MAX_FILE_SIZE :: nat where
  "MAX_FILE_SIZE = 10 * 1024 * 1024"

definition ALLOWED_EXTENSIONS :: "string set" where
  "ALLOWED_EXTENSIONS = {''png'', ''jpg'', ''jpeg'', ''webp''}"

text \<open>
  The f-strings print \<^verbatim>\<open>MAX_FILE_SIZE / (1024*1024)\<close>, a true division whose result is
  the float \<^verbatim>\<open>10.0\<close>; its \<^verbatim>\<open>str\<close> is the text below.
\<close>

definition MAX_FILE_SIZE_MB :: string where
  "MAX_FILE_SIZE_MB = ''10.0''"

subsection \<open>String operations of Python used by the source\<close>

definition ascii_uppercase :: string where
  "ascii_uppercase = ''ABCDEFGHIJKLMNOPQRSTUVWXYZ''"

definition ascii_lowercase :: string where
  "ascii_lowercase = ''abcdefghijklmnopqrstuvwxyz''"

text \<open>\<^verbatim>\<open>str.lower()\<close> on the characters a \<open>string\<close> holds: A-Z go to a-z, the rest stay.\<close>

definition lower_char :: "char \<Rightarrow> char" where
  "lower_char c = (case map_of (zip ascii_uppercase ascii_lowercase) c of
                     Some d \<Rightarrow> d
                   | None \<Rightarrow> c)"

definition str_lower :: "string \<Rightarrow> string" where
  "str_lower s = map lower_char s"

text \<open>
  \<^verbatim>\<open>s.rsplit(sep, 1)\<close> for a one-character separator: split once, at the last
  occurrence of \<open>sep\<close>; without an occurrence the result is \<^verbatim>\<open>[s]\<close>.
\<close>

definition rsplit1 :: "char \<Rightarrow> string \<Rightarrow> string list" where
  "rsplit1 sep s =
     (if sep \<in> set s
      then [rev (tl (dropWhile (\<lambda>c. c \<noteq> sep) (rev s))),
            rev (takeWhile (\<lambda>c. c \<noteq> sep) (rev s))]
      else [s])"

text \<open>\<^verbatim>\<open>xs[i]\<close> for \<open>i \<ge> 0\<close>: out of range raises \<^verbatim>\<open>IndexError\<close>.\<close>

definition getitem :: "'a list \<Rightarrow> nat \<Rightarrow> exn + 'a" where
  "getitem xs i =
     (if i < length xs then Inr (xs ! i)
      else Inl (Exception ''IndexError'' ''list index out of range''))"

text \<open>\<^verbatim>\<open>sep.join(xs)\<close>.\<close>

fun join :: "string \<Rightarrow> string list \<Rightarrow> string" where
  "join sep [] = []"
| "join sep [x] = x"
| "join sep (x # y # ys) = x @ sep @ join sep (y # ys)"

subsection \<open>\<^verbatim>\<open>allowed_file\<close> (lines 54-57)\<close>

text \<open>
  \<^verbatim>\<open>'.' in filename and filename.rsplit('.', 1)[1].lower() in ALLOWED_EXTENSIONS\<close>:
  \<^verbatim>\<open>and\<close> evaluates its right operand only when the left one is true.
\<close>

definition allowed_file :: "string \<Rightarrow> exn + bool" where
  "allowed_file filename =
     (if CHR ''.'' \<notin> set filename then Inr False
      else case getitem (rsplit1 CHR ''.'' filename) 1 of
             Inl e \<Rightarrow> Inl e
           | Inr ext \<Rightarrow> Inr (str_lower ext \<in> ALLOWED_EXTENSIONS))"

section \<open>The uploaded file and the validator\<close>

subsection \<open>werkzeug's \<^verbatim>\<open>FileStorage\<close>\<close>

text \<open>
  \<^verbatim>\<open>request.files['image']\<close> is a \<^verbatim>\<open>FileStorage\<close>: the declared filename and a
  seekable in-memory byte stream. \<^verbatim>\<open>seek\<close>, \<^verbatim>\<open>tell\<close> and \<^verbatim>\<open>read\<close> are those of the stream.
\<close>

record file_storage =
  filename :: string
  stream :: "byte list"
  position :: nat

text \<open>
  Truth value of the object in \<^verbatim>\<open>if not file\<close>: \<^verbatim>\<open>FileStorage.__bool__\<close> is
  \<^verbatim>\<open>bool(self.filename)\<close>, so an upload with an empty filename is falsy.
\<close>

definition file_bool :: "file_storage \<Rightarrow> bool" where
  "file_bool f = (filename f \<noteq> [])"

text \<open>\<^verbatim>\<open>file.seek(0, os.SEEK_END)\<close>\<close>

definition seek_end :: "file_storage \<Rightarrow> file_storage" where
  "seek_end f = f\<lparr>position := length (stream f)\<rparr>"

text \<open>\<^verbatim>\<open>file.tell()\<close>\<close>

definition tell :: "file_storage \<Rightarrow> nat" where
  "tell f = position f"

text \<open>\<^verbatim>\<open>file.seek(n)\<close>\<close>

definition seek :: "file_storage \<Rightarrow> nat \<Rightarrow> file_storage" where
  "seek f n = f\<lparr>position := n\<rparr>"

text \<open>\<^verbatim>\<open>file.read()\<close>: the bytes from the read position to the end; the position moves there.\<close>

definition read :: "file_storage \<Rightarrow> byte list \<times> file_storage" where
  "read f = (drop (position f) (stream f),
             f\<lparr>position := max (position f) (length (stream f))\<rparr>)"

subsection \<open>The environment of one process\<close>

text \<open>
  What the source takes from outside: the libraries it calls (PIL, rembg, werkzeug), the
  clock and the process environment. A library call that can raise returns \<open>exn + 'a\<close>.
  \<^item> \<open>list_ALLOWED_EXTENSIONS\<close> is the order in which this process iterates the set
    \<^verbatim>\<open>ALLOWED_EXTENSIONS\<close> (CPython fixes it per process, by its string hashes).
  \<^item> \<open>Image_open\<close> is \<^verbatim>\<open>Image.open(io.BytesIO(data))\<close>, \<open>convert_raster\<close> the pixel
    conversion behind \<^verbatim>\<open>img.convert(mode)\<close>, \<open>save_PNG\<close> is \<^verbatim>\<open>img.save(buf, format='PNG')\<close>
    followed by \<^verbatim>\<open>buf.getvalue()\<close>.
  \<^item> \<open>rembg_remove\<close> is \<^verbatim>\<open>remove(data, session=..., post_process_mask=...)\<close> and
    \<open>new_session\<close> is rembg's \<^verbatim>\<open>new_session(name)\<close>.
  \<^item> \<open>health_fault\<close> is the \<^verbatim>\<open>Exception\<close>, if any, that a call inside the \<^verbatim>\<open>try\<close> block
    of \<^verbatim>\<open>health_check\<close> raises. In its \<^verbatim>\<open>except\<close> block, \<open>health_log_fault\<close> is the one
    that \<^verbatim>\<open>logger.error\<close> raises, if any, and \<open>health_except_fault\<close> the one that building
    the response (\<^verbatim>\<open>datetime.utcnow\<close>, \<^verbatim>\<open>jsonify\<close>) raises, if any.
  \<^item> \<open>environ_PORT\<close> is \<^verbatim>\<open>os.environ.get('PORT')\<close> and \<open>int_of_str\<close> is \<^verbatim>\<open>int\<close> on a string.
\<close>

record image =
  mode :: string
  raster :: "byte list"

datatype session = Session string

record env =
  list_ALLOWED_EXTENSIONS :: "string list"
  now_isoformat :: string
  utcnow_isoformat :: string
  processing_time :: string
  secure_filename :: "string \<Rightarrow> string"
  Image_open :: "byte list \<Rightarrow> exn + image"
  convert_raster :: "string \<Rightarrow> string \<Rightarrow> byte list \<Rightarrow> exn + byte list"
  save_PNG :: "image \<Rightarrow> exn + byte list"
  rembg_remove :: "byte list \<Rightarrow> session \<Rightarrow> bool \<Rightarrow> exn + byte list"
  new_session :: "string \<Rightarrow> exn + session"
  health_fault :: "exn option"
  health_log_fault :: "exn option"
  health_except_fault :: "exn option"
  environ_PORT :: "string option"
  int_of_str :: "string \<Rightarrow> exn + int"

text \<open>\<^verbatim>\<open>img.convert(m)\<close>: a new image of mode \<open>m\<close>, or the codec's exception.\<close>

definition convert :: "env \<Rightarrow> image \<Rightarrow> string \<Rightarrow> exn + image" where
  "convert env img m =
     (case convert_raster env (mode img) m (raster img) of
        Inl e \<Rightarrow> Inl e
      | Inr px \<Rightarrow> Inr \<lparr>mode = m, raster = px\<rparr>)"

subsection \<open>\<^verbatim>\<open>validate_image_file\<close> (lines 59-78)\<close>

text \<open>
  The argument is \<^verbatim>\<open>None\<close> or a \<^verbatim>\<open>FileStorage\<close>. The result is the returned pair
  \<^verbatim>\<open>(is_valid, message)\<close>, or the exception raised, together with the file object as the
  call leaves it.
\<close>

definition validate_image_file ::
  "env \<Rightarrow> file_storage option \<Rightarrow> (exn + bool \<times> string option) \<times> file_storage option" where
  "validate_image_file env file =
     (case file of
        None \<Rightarrow> (Inr (False, Some ''No file provided''), file)
      | Some f \<Rightarrow>
          if \<not> file_bool f then (Inr (False, Some ''No file provided''), file)
          else if filename f = [] then (Inr (False, Some ''No file selected''), file)
          else
            (case allowed_file (filename f) of
               Inl e \<Rightarrow> (Inl e, file)
             | Inr allowed \<Rightarrow>
                 if \<not> allowed
                 then (Inr (False, Some (''File type not allowed. Supported: '' @
                              join '', '' (list_ALLOWED_EXTENSIONS env))), file)
                 else
                   let f1 = seek_end f;
                       file_size = tell f1;
                       f2 = seek f1 0
                   in if file_size > MAX_FILE_SIZE
                      then (Inr (False, Some (''File too large. Maximum size: '' @
                                   MAX_FILE_SIZE_MB @ ''MB'')), Some f2)
                      else (Inr (True, None), Some f2)))"

section \<open>The HTTP handlers\<close>

subsection \<open>Requests, responses, process state\<close>

datatype http_method = POST | OPTIONS

record request =
  request_method :: http_method
  files :: "string \<rightharpoonup> file_storage"

datatype jval = JStr string | JNull

text \<open>
  A response body: a \<^verbatim>\<open>jsonify\<close>-ed dictionary, the text of a plain return, or the bytes
  of \<^verbatim>\<open>send_file\<close> with their mimetype and download name.
\<close>

datatype body = Json "(string \<times> jval) list" | Text string | File "byte list" string string

record response =
  body :: body
  status :: nat

text \<open>
  Effects a handler leaves behind: log lines and calls of the external libraries, in
  order. \<open>rembg_session\<close> is the module's global of that name.
\<close>

datatype event =
    LogInfo string
  | LogError string
  | Call_Image_open "byte list"
  | Call_convert string
  | Call_save_PNG
  | Call_remove "byte list"
  | Call_new_session string
  | Call_app_run int

record state =
  rembg_session :: "session option"
  trace :: "event list"

definition log :: "state \<Rightarrow> event list \<Rightarrow> state" where
  "log st evs = st\<lparr>trace := trace st @ evs\<rparr>"

definition initial_state :: state where
  "initial_state = \<lparr>rembg_session = None, trace = []\<rparr>"

subsection \<open>\<^verbatim>\<open>init_model\<close> (lines 43-52) and the \<^verbatim>\<open>__main__\<close> block (lines 236-249)\<close>

definition init_model :: "env \<Rightarrow> state \<Rightarrow> (exn + unit) \<times> state" where
  "init_model env st =
     (let st1 = log st [LogInfo ''Initializing rembg model (isnet-general-use)...'',
                        Call_new_session ''isnet-general-use'']
      in case new_session env ''isnet-general-use'' of
           Inr s \<Rightarrow> (Inr (), log (st1\<lparr>rembg_session := Some s\<rparr>)
                               [LogInfo ''Model initialized successfully!''])
         | Inl e \<Rightarrow> (Inl e, log st1 [LogError (''Failed to initialize model: '' @ str_of e)]))"

text \<open>
  How the script ends: an uncaught exception ends the process, or \<^verbatim>\<open>app.run\<close> listens
  on the port.
\<close>

datatype outcome = Raised exn | Serving int

definition main :: "env \<Rightarrow> state \<Rightarrow> outcome \<times> state" where
  "main env st =
     (case init_model env st of
        (Inl e, st1) \<Rightarrow> (Raised e, st1)
      | (Inr u, st1) \<Rightarrow>
          (case (case environ_PORT env of None \<Rightarrow> Inr 5000 | Some s \<Rightarrow> int_of_str env s) of
             Inl e \<Rightarrow> (Raised e, st1)
           | Inr port \<Rightarrow> (Serving port, log st1 [Call_app_run port])))"

subsection \<open>\<^verbatim>\<open>health_check\<close> (lines 105-121)\<close>

text \<open>
  The \<^verbatim>\<open>try\<close> block returns the 200 response or raises. The \<^verbatim>\<open>except\<close> block logs, then
  builds the 503 response; nothing encloses it, so an exception raised there leaves the
  handler.
\<close>

definition health_check :: "env \<Rightarrow> state \<Rightarrow> (exn + response) \<times> state" where
  "health_check env st =
     (case (case health_fault env of
              Some e \<Rightarrow> Inl e
            | None \<Rightarrow>
                let model_status = (if rembg_session st \<noteq> None then ''loaded'' else ''not_loaded'')
                in Inr \<lparr>body = Json [(''status'', JStr ''healthy''),
                                      (''model'', JStr model_status),
                                      (''timestamp'', JStr (utcnow_isoformat env))],
                        status = 200\<rparr>) of
        Inr r \<Rightarrow> (Inr r, st)
      | Inl e \<Rightarrow>
          (case health_log_fault env of
             Some e1 \<Rightarrow> (Inl e1, st)
           | None \<Rightarrow>
               let st1 = log st [LogError (''Health check failed: '' @ str_of e)]
               in (case health_except_fault env of
                     Some e2 \<Rightarrow> (Inl e2, st1)
                   | None \<Rightarrow>
                       (Inr \<lparr>body = Json [(''status'', JStr ''unhealthy''),
                                           (''error'', JStr (str_of e)),
                                           (''timestamp'', JStr (utcnow_isoformat env))],
                             status = 503\<rparr>, st1))))"

subsection \<open>\<^verbatim>\<open>remove_background\<close> (lines 123-217)\<close>

definition service_not_ready :: response where
  "service_not_ready =
     \<lparr>body = Json [(''error'', JStr ''Service not ready''),
                   (''message'', JStr ''Background removal model is not loaded'')],
      status = 503\<rparr>"

definition bad_request :: response where
  "bad_request =
     \<lparr>body = Json [(''error'', JStr ''Bad request''),
                   (''message'', JStr ''No image file provided in request'')],
      status = 400\<rparr>"

definition invalid_file :: "string option \<Rightarrow> response" where
  "invalid_file error_message =
     \<lparr>body = Json [(''error'', JStr ''Invalid file''),
                   (''message'', case error_message of Some m \<Rightarrow> JStr m | None \<Rightarrow> JNull)],
      status = 400\<rparr>"

definition invalid_image :: response where
  "invalid_image =
     \<lparr>body = Json [(''error'', JStr ''Invalid image''),
                   (''message'', JStr (''Could not process image file. '' @
                                       ''Please ensure it's a valid image.''))],
      status = 400\<rparr>"

definition internal_error :: response where
  "internal_error =
     \<lparr>body = Json [(''error'', JStr ''Internal server error''),
                   (''message'', JStr (''An error occurred while processing your image. '' @
                                       ''Please try again.''))],
      status = 500\<rparr>"

text \<open>Lines 168-179, the body of the inner \<^verbatim>\<open>try\<close>: open, convert if needed, save as PNG.\<close>

definition open_and_save ::
  "env \<Rightarrow> byte list \<Rightarrow> event list \<Rightarrow> (exn + byte list) \<times> event list" where
  "open_and_save env input_data tr =
     (let tr1 = tr @ [Call_Image_open input_data]
      in case Image_open env input_data of
           Inl e \<Rightarrow> (Inl e, tr1)
         | Inr img \<Rightarrow>
             (case (if mode img \<notin> {''RGB'', ''RGBA''}
                    then (convert env img ''RGB'',
                          tr1 @ [LogInfo (''Converting image from '' @ mode img @ '' to RGB''),
                                 Call_convert ''RGB''])
                    else (Inr img, tr1)) of
                (Inl e, tr2) \<Rightarrow> (Inl e, tr2)
              | (Inr img2, tr2) \<Rightarrow> (save_PNG env img2, tr2 @ [Call_save_PNG])))"

definition put_file :: "request \<Rightarrow> file_storage option \<Rightarrow> request" where
  "put_file req file = req\<lparr>files := (files req)(''image'' := file)\<rparr>"

text \<open>
  Lines 137-210, the body of the outer \<^verbatim>\<open>try\<close>: the response returned or the exception
  raised, the request with the file object as the handler leaves it, and the state.
  The multipart form is taken as already parsed: \<open>files req\<close> is \<^verbatim>\<open>request.files\<close>, and
  reading it does not raise.
\<close>

definition remove_background_try ::
  "env \<Rightarrow> request \<Rightarrow> state \<Rightarrow> (exn + response) \<times> request \<times> state" where
  "remove_background_try env req st =
     (case rembg_session st of
        None \<Rightarrow> (Inr service_not_ready, req, log st [LogError ''Model not initialized''])
      | Some sess \<Rightarrow>
          (case files req ''image'' of
             None \<Rightarrow> (Inr bad_request, req, st)
           | Some file \<Rightarrow>
               (case validate_image_file env (Some file) of
                  (Inl e, file1) \<Rightarrow> (Inl e, put_file req file1, st)
                | (Inr (is_valid, error_message), file1) \<Rightarrow>
                    if \<not> is_valid
                    then (Inr (invalid_file error_message), put_file req file1, st)
                    else
                      (case file1 of
                         None \<Rightarrow> (Inl (Exception ''AttributeError''
                                     ''NoneType object has no attribute filename''),
                                   put_file req file1, st)
                       | Some f1 \<Rightarrow>
                           let st1 = log st [LogInfo (''Processing image: '' @
                                                     secure_filename env (filename f1))];
                               (input_data, f2) = read f1;
                               req2 = put_file req (Some f2)
                           in (case open_and_save env input_data (trace st1) of
                                 (Inl e, tr) \<Rightarrow>
                                   (Inr invalid_image, req2,
                                    st1\<lparr>trace := tr @ [LogError (''Failed to open/process image: '' @
                                                                 str_of e)]\<rparr>)
                               | (Inr png, tr) \<Rightarrow>
                                   let st2 = st1\<lparr>trace := tr @ [LogInfo ''Removing background...'',
                                                                 Call_remove png]\<rparr>
                                   in (case rembg_remove env png sess True of
                                         Inl e \<Rightarrow> (Inl e, req2, st2)
                                       | Inr output_data \<Rightarrow>
                                           (Inr \<lparr>body = File output_data ''image/png''
                                                          ''removed_bg.png'',
                                                 status = 200\<rparr>,
                                            req2,
                                            log st2 [LogInfo (''Background removed successfully in '' @
                                                              processing_time env @ ''s'')])))))))"

definition remove_background :: "env \<Rightarrow> request \<Rightarrow> state \<Rightarrow> response \<times> request \<times> state" where
  "remove_background env req st =
     (if request_method req = OPTIONS then (\<lparr>body = Text [], status = 204\<rparr>, req, st)
      else
        let st0 = log st [LogInfo (''['' @ now_isoformat env @ ''] New background removal request'')]
        in case remove_background_try env req st0 of
             (Inr resp, req1, st1) \<Rightarrow> (resp, req1, st1)
           | (Inl e, req1, st1) \<Rightarrow>
               (internal_error, req1,
                log st1 [LogError (''Error processing request: '' @ str_of e)]))"

subsection \<open>The error handlers (lines 219-234)\<close>

definition request_entity_too_large :: response where
  "request_entity_too_large =
     \<lparr>body = Json [(''error'', JStr ''File too large''),
                   (''message'', JStr (''Maximum file size is '' @ MAX_FILE_SIZE_MB @ ''MB''))],
      status = 413\<rparr>"

definition internal_server_error :: response where
  "internal_server_error =
     \<lparr>body = Json [(''error'', JStr ''Internal server error''),
                   (''message'', JStr ''An unexpected error occurred'')],
      status = 500\<rparr>"

section \<open>Sample inputs\<close>

text \<open>
  Concrete inputs on which the theorems below are instantiated. The sample codec
  reads the first byte: \<open>0x89\<close> (the PNG signature) opens as an RGBA image, \<open>0xFF\<close> (JPEG)
  as a grayscale one, anything else is not an image.
\<close>

definition sample_env :: env where
  "sample_env =
     \<lparr>list_ALLOWED_EXTENSIONS = [''png'', ''jpg'', ''jpeg'', ''webp''],
      now_isoformat = ''2024-05-01T12:00:00'',
      utcnow_isoformat = ''2024-05-01T10:00:00'',
      processing_time = ''1.25'',
      secure_filename = (\<lambda>s. s),
      Image_open = (\<lambda>d. case d of
                          [] \<Rightarrow> Inl (Exception ''UnidentifiedImageError'' ''cannot identify image file'')
                        | b # bs \<Rightarrow>
                            if b = 0x89 then Inr \<lparr>mode = ''RGBA'', raster = bs\<rparr>
                            else if b = 0xFF then Inr \<lparr>mode = ''L'', raster = bs\<rparr>
                            else Inl (Exception ''UnidentifiedImageError''
                                        ''cannot identify image file'')),
      convert_raster = (\<lambda>src dst px. Inr px),
      save_PNG = (\<lambda>img. Inr (0x89 # raster img)),
      rembg_remove = (\<lambda>d s post. Inr d),
      new_session = (\<lambda>n. Inr (Session n)),
      health_fault = None,
      health_log_fault = None,
      health_except_fault = None,
      environ_PORT = None,
      int_of_str = (\<lambda>s. Inl (Exception ''ValueError'' ''invalid literal for int()''))\<rparr>"

definition loaded_state :: state where
  "loaded_state = \<lparr>rembg_session = Some (Session ''isnet-general-use''), trace = []\<rparr>"

definition upload :: "string \<Rightarrow> byte list \<Rightarrow> file_storage" where
  "upload name data = \<lparr>filename = name, stream = data, position = 0\<rparr>"

definition post_image :: "file_storage \<Rightarrow> request" where
  "post_image f = \<lparr>request_method = POST, files = [''image'' \<mapsto> f]\<rparr>"

text \<open>An upload one byte over the limit, with an allowed extension.\<close>

definition oversized_png :: file_storage where
  "oversized_png = upload ''big.png'' (replicate (MAX_FILE_SIZE + 1) 0)"

text \<open>An upload whose stream is not at its start when the validator receives it.\<close>

definition partly_read_png :: file_storage where
  "partly_read_png = \<lparr>filename = ''cat.PNG'', stream = [0x89, 1, 2], position = 2\<rparr>"

section \<open>Properties\<close>

lemma rsplit1_append:
  assumes "sep \<notin> set ext"
  shows "rsplit1 sep (base @ sep # ext) = [base, ext]"
proof -
  let ?P = "\<lambda>c. c \<noteq> sep"
  have t: "takeWhile ?P (rev ext @ sep # rev base) = rev ext"
    by (subst takeWhile_append2) (use assms in auto)
  have d: "dropWhile ?P (rev ext @ sep # rev base) = sep # rev base"
    by (subst dropWhile_append2) (use assms in auto)
  show ?thesis
    by (simp add: rsplit1_def t d)
qed

lemma rsplit1_length:
  "sep \<in> set s \<Longrightarrow> length (rsplit1 sep s) = 2"
  by (simp add: rsplit1_def)

lemma split_last_dot:
  "sep \<in> set s \<Longrightarrow> \<exists>base ext. s = base @ sep # ext \<and> sep \<notin> set ext"
  by (rule split_list_last)

subsection \<open>The extension check\<close>

lemma allowed_file_no_dot:
  "CHR ''.'' \<notin> set name \<Longrightarrow> allowed_file name = Inr False"
  by (simp add: allowed_file_def)

lemma allowed_file_split:
  assumes "CHR ''.'' \<notin> set ext"
  shows "allowed_file (base @ CHR ''.'' # ext) = Inr (str_lower ext \<in> ALLOWED_EXTENSIONS)"
  using rsplit1_append [OF assms, of base]
  by (simp add: allowed_file_def getitem_def)

text \<open>The index \<^verbatim>\<open>[1]\<close> is always in range: \<^verbatim>\<open>allowed_file\<close> never raises.\<close>

lemma allowed_file_total: "\<exists>b. allowed_file name = Inr b"
proof (cases "CHR ''.'' \<in> set name")
  case True
  from split_last_dot [OF True]
  obtain base ext where n: "name = base @ CHR ''.'' # ext" and e: "CHR ''.'' \<notin> set ext"
    by (elim exE conjE)
  show ?thesis
    unfolding n allowed_file_split [OF e] by (rule exI) (rule refl)
next
  case False
  show ?thesis
    by (rule exI [of _ False]) (rule allowed_file_no_dot [OF False])
qed

text \<open>
  Claim C10. The extension check looks only at what follows the last dot of the
  filename: a filename without a dot is rejected; a filename \<open>base.ext\<close> whose \<open>ext\<close> has
  no dot is accepted exactly when the lowercased \<open>ext\<close> is an allowed extension, whatever
  \<open>base\<close> is (empty, or with dots of its own). So \<^verbatim>\<open>.png\<close> and \<^verbatim>\<open>a.exe.png\<close> are accepted
  and \<^verbatim>\<open>a.png.exe\<close> is rejected.
\<close>

theorem allowed_file_last_extension:
  "(CHR ''.'' \<notin> set name \<longrightarrow> allowed_file name = Inr False) \<and>
   (CHR ''.'' \<notin> set ext \<longrightarrow>
      allowed_file (base @ ''.'' @ ext) = Inr (str_lower ext \<in> ALLOWED_EXTENSIONS)) \<and>
   allowed_file ''photo'' = Inr False \<and>
   allowed_file ''.png'' = Inr True \<and>
   allowed_file ''a.exe.png'' = Inr True \<and>
   allowed_file ''a.png.exe'' = Inr False"
proof (intro conjI impI)
  show "allowed_file ''photo'' = Inr False" by code_simp
  show "allowed_file ''.png'' = Inr True" by code_simp
  show "allowed_file ''a.exe.png'' = Inr True" by code_simp
  show "allowed_file ''a.png.exe'' = Inr False" by code_simp
next
  assume "CHR ''.'' \<notin> set name"
  then show "allowed_file name = Inr False" by (rule allowed_file_no_dot)
next
  assume "CHR ''.'' \<notin> set ext"
  then show "allowed_file (base @ ''.'' @ ext) = Inr (str_lower ext \<in> ALLOWED_EXTENSIONS)"
    using allowed_file_split [of ext base] by simp
qed

theorem allowed_file_last_extension_witness:
  "allowed_file ''README'' = Inr False \<and> allowed_file ''holiday.final.JPG'' = Inr True"
proof -
  have a: "CHR ''.'' \<notin> set ''README''" by simp
  have b: "CHR ''.'' \<notin> set ''JPG''" by simp
  have c: "str_lower ''JPG'' \<in> ALLOWED_EXTENSIONS" by code_simp
  show ?thesis
    using allowed_file_last_extension [of "''README''" "''JPG''" "''holiday.final''"] a b c
    by simp
qed

subsection \<open>The validator, case by case\<close>

text \<open>
  Since \<^verbatim>\<open>allowed_file\<close> never raises, neither does the validator. The second test,
  \<^verbatim>\<open>file.filename == ''\<close>, is never reached with a true condition: a \<^verbatim>\<open>FileStorage\<close> with an
  empty filename is already falsy in the first test.
\<close>

lemma validate_image_file_None:
  "validate_image_file env None = (Inr (False, Some ''No file provided''), None)"
  by (simp add: validate_image_file_def)

lemma validate_image_file_Some:
  "validate_image_file env (Some f) =
     (if filename f = [] then (Inr (False, Some ''No file provided''), Some f)
      else if allowed_file (filename f) = Inr False
      then (Inr (False, Some (''File type not allowed. Supported: '' @
                    join '', '' (list_ALLOWED_EXTENSIONS env))), Some f)
      else if MAX_FILE_SIZE < length (stream f)
      then (Inr (False, Some ''File too large. Maximum size: 10.0MB''), Some (f\<lparr>position := 0\<rparr>))
      else (Inr (True, None), Some (f\<lparr>position := 0\<rparr>)))"
proof -
  obtain b where b: "allowed_file (filename f) = Inr b"
    using allowed_file_total by blast
  show ?thesis
    by (cases b)
       (simp_all add: validate_image_file_def b file_bool_def seek_end_def tell_def seek_def
          MAX_FILE_SIZE_MB_def Let_def)
qed

lemma validate_image_file_oversized:
  assumes "MAX_FILE_SIZE < length (stream f)"
  shows "\<exists>m. fst (validate_image_file env (Some f)) = Inr (False, Some m) \<and>
             (allowed_file (filename f) = Inr True \<longrightarrow>
                m = ''File too large. Maximum size: 10.0MB'')"
  using assms by (auto simp add: validate_image_file_Some allowed_file_def)

lemma validate_image_file_leaves:
  "snd (validate_image_file env (Some f)) = Some f \<or>
   snd (validate_image_file env (Some f)) = Some (f\<lparr>position := 0\<rparr>)"
  by (simp add: validate_image_file_Some)

lemma validate_image_file_accepts:
  "fst (validate_image_file env (Some f)) = Inr (True, None) \<Longrightarrow>
   snd (validate_image_file env (Some f)) = Some (f\<lparr>position := 0\<rparr>)"
  by (simp add: validate_image_file_Some split: if_splits)

lemma rewind_at_start: "position f = 0 \<Longrightarrow> f\<lparr>position := 0\<rparr> = f"
  by (cases f) simp

lemma read_rewound: "fst (read (f\<lparr>position := 0\<rparr>)) = stream f"
  by (simp add: read_def)

subsection \<open>The decoding block and the handler, flattened\<close>

lemma open_and_save_fst:
  "fst (open_and_save env d tr) =
     (case Image_open env d of
        Inl e \<Rightarrow> Inl e
      | Inr img \<Rightarrow>
          (case (if mode img \<notin> {''RGB'', ''RGBA''} then convert env img ''RGB'' else Inr img) of
             Inl e \<Rightarrow> Inl e
           | Inr img2 \<Rightarrow> save_PNG env img2))"
  by (simp add: open_and_save_def Let_def split: sum.splits)

lemma open_and_save_trace:
  "\<exists>evs. snd (open_and_save env d tr) = tr @ evs \<and> (\<forall>x. Call_remove x \<notin> set evs)"
  by (simp add: open_and_save_def Let_def split: sum.splits)

lemma open_and_save_opens:
  "Call_Image_open d \<in> set (snd (open_and_save env d tr))"
  by (simp add: open_and_save_def Let_def split: sum.splits)

lemma remove_background_rejected:
  assumes "rembg_session st = Some sess" and "request_method req = POST"
    and "files req ''image'' = Some file"
    and "fst (validate_image_file env (Some file)) = Inr (False, m)"
  shows "remove_background env req st =
           (invalid_file m, put_file req (snd (validate_image_file env (Some file))),
            st\<lparr>trace := trace st @
                 [LogInfo (''['' @ now_isoformat env @ ''] New background removal request'')]\<rparr>)"
  using assms
  by (cases "validate_image_file env (Some file)")
     (simp add: remove_background_def remove_background_try_def log_def)

lemma remove_background_accepted:
  assumes "rembg_session st = Some sess" and "request_method req = POST"
    and "files req ''image'' = Some file"
    and "fst (validate_image_file env (Some file)) = Inr (True, m)"
  shows "remove_background env req st =
           (let tr1 = trace st @
                  [LogInfo (''['' @ now_isoformat env @ ''] New background removal request''),
                   LogInfo (''Processing image: '' @ secure_filename env (filename file))];
                req2 = put_file req (Some (file\<lparr>position := length (stream file)\<rparr>))
            in case open_and_save env (stream file) tr1 of
                 (Inl e, tr) \<Rightarrow>
                   (invalid_image, req2,
                    st\<lparr>trace := tr @ [LogError (''Failed to open/process image: '' @ str_of e)]\<rparr>)
               | (Inr png, tr) \<Rightarrow>
                   (case rembg_remove env png sess True of
                      Inl e \<Rightarrow>
                        (internal_error, req2,
                         st\<lparr>trace := tr @ [LogInfo ''Removing background...'', Call_remove png,
                                             LogError (''Error processing request: '' @ str_of e)]\<rparr>)
                    | Inr output_data \<Rightarrow>
                        (\<lparr>body = File output_data ''image/png'' ''removed_bg.png'', status = 200\<rparr>,
                         req2,
                         st\<lparr>trace := tr @ [LogInfo ''Removing background...'', Call_remove png,
                                             LogInfo (''Background removed successfully in '' @
                                                      processing_time env @ ''s'')]\<rparr>)))"
proof -
  have v: "validate_image_file env (Some file) = (Inr (True, None), Some (file\<lparr>position := 0\<rparr>))"
    using assms(4) by (simp add: validate_image_file_Some split: if_splits)
  show ?thesis
    using assms(1-3)
    by (simp add: remove_background_def remove_background_try_def log_def v read_def Let_def
        split: prod.splits sum.splits)
qed

subsection \<open>The paths through \<^verbatim>\<open>remove_background\<close>\<close>

lemma remove_background_options:
  "request_method req = OPTIONS \<Longrightarrow>
   remove_background env req st = (\<lparr>body = Text [], status = 204\<rparr>, req, st)"
  by (simp add: remove_background_def)

lemma remove_background_not_ready:
  "request_method req = POST \<Longrightarrow> rembg_session st = None \<Longrightarrow>
   remove_background env req st =
     (service_not_ready, req,
      st\<lparr>trace := trace st @
           [LogInfo (''['' @ now_isoformat env @ ''] New background removal request''),
            LogError ''Model not initialized'']\<rparr>)"
  by (simp add: remove_background_def remove_background_try_def log_def)

lemma remove_background_no_field:
  "request_method req = POST \<Longrightarrow> rembg_session st = Some sess \<Longrightarrow> files req ''image'' = None \<Longrightarrow>
   remove_background env req st =
     (bad_request, req,
      st\<lparr>trace := trace st @
           [LogInfo (''['' @ now_isoformat env @ ''] New background removal request'')]\<rparr>)"
  by (simp add: remove_background_def remove_background_try_def log_def)

lemma validate_image_file_result:
  "\<exists>b m. fst (validate_image_file env (Some f)) = Inr (b, m)"
  by (auto simp add: validate_image_file_Some)

lemma remove_background_cases:
  obtains
    (options) "request_method req = OPTIONS"
  | (not_ready) "request_method req = POST" "rembg_session st = None"
  | (no_field) sess where "request_method req = POST" "rembg_session st = Some sess"
      "files req ''image'' = None"
  | (rejected) sess f m where "request_method req = POST" "rembg_session st = Some sess"
      "files req ''image'' = Some f"
      "fst (validate_image_file env (Some f)) = Inr (False, m)"
  | (accepted) sess f where "request_method req = POST" "rembg_session st = Some sess"
      "files req ''image'' = Some f"
      "fst (validate_image_file env (Some f)) = Inr (True, None)"
proof (cases "request_method req")
  case OPTIONS
  then show ?thesis by (rule options)
next
  case POST
  show ?thesis
  proof (cases "rembg_session st")
    case None
    with POST show ?thesis by (rule not_ready)
  next
    case (Some sess)
    show ?thesis
    proof (cases "files req ''image''")
      case None
      with POST Some show ?thesis by (rule no_field)
    next
      case upl: (Some f)
      show ?thesis
      proof (cases "fst (validate_image_file env (Some f)) = Inr (True, None)")
        case True
        with POST Some upl show ?thesis by (rule accepted)
      next
        case False
        then obtain m where "fst (validate_image_file env (Some f)) = Inr (False, m)"
          by (simp add: validate_image_file_Some split: if_splits)
        with POST Some upl show ?thesis by (rule rejected)
      qed
    qed
  qed
qed

lemma open_and_save_Inr:
  assumes "fst (open_and_save env d tr) = Inr png"
  shows "\<exists>img0 img. Image_open env d = Inr img0 \<and>
           (if mode img0 \<in> {''RGB'', ''RGBA''} then img = img0
            else convert env img0 ''RGB'' = Inr img \<and> mode img = ''RGB'') \<and>
           mode img \<in> {''RGB'', ''RGBA''} \<and> save_PNG env img = Inr png"
  using assms
  by (auto simp add: open_and_save_fst convert_def split: sum.splits if_splits)

lemma remove_background_accepted_response:
  assumes "rembg_session st = Some sess" and "request_method req = POST"
    and "files req ''image'' = Some f"
    and "fst (validate_image_file env (Some f)) = Inr (True, m)"
  shows "fst (remove_background env req st) =
           (case fst (open_and_save env (stream f) []) of
              Inl e \<Rightarrow> invalid_image
            | Inr png \<Rightarrow>
                (case rembg_remove env png sess True of
                   Inl e \<Rightarrow> internal_error
                 | Inr output_data \<Rightarrow>
                     \<lparr>body = File output_data ''image/png'' ''removed_bg.png'', status = 200\<rparr>))"
proof -
  let ?tr1 = "trace st @
                [LogInfo (''['' @ now_isoformat env @ ''] New background removal request''),
                 LogInfo (''Processing image: '' @ secure_filename env (filename f))]"
  obtain r tr where os: "open_and_save env (stream f) ?tr1 = (r, tr)"
    by (cases "open_and_save env (stream f) ?tr1")
  have "fst (open_and_save env (stream f) []) = fst (open_and_save env (stream f) ?tr1)"
    by (simp only: open_and_save_fst)
  then have r: "fst (open_and_save env (stream f) []) = r"
    by (simp only: os fst_conv)
  show ?thesis
    using os
    by (simp add: remove_background_accepted [OF assms] r Let_def split: sum.splits)
qed

lemma remove_background_accepted_events:
  assumes "rembg_session st = Some sess" and "request_method req = POST"
    and "files req ''image'' = Some f"
    and "fst (validate_image_file env (Some f)) = Inr (True, m)"
  shows "\<exists>evs. trace (snd (snd (remove_background env req st))) = trace st @ evs \<and>
           (\<forall>png. Call_remove png \<in> set evs \<longrightarrow>
                    fst (open_and_save env (stream f) []) = Inr png)"
proof -
  let ?tr1 = "trace st @
                [LogInfo (''['' @ now_isoformat env @ ''] New background removal request''),
                 LogInfo (''Processing image: '' @ secure_filename env (filename f))]"
  obtain evs where evs: "snd (open_and_save env (stream f) ?tr1) = ?tr1 @ evs"
      and nr: "\<forall>x. Call_remove x \<notin> set evs"
    using open_and_save_trace [of env "stream f" ?tr1] by blast
  obtain r where os: "open_and_save env (stream f) ?tr1 = (r, ?tr1 @ evs)"
    using evs by (cases "open_and_save env (stream f) ?tr1") simp
  have "fst (open_and_save env (stream f) []) = fst (open_and_save env (stream f) ?tr1)"
    by (simp only: open_and_save_fst)
  then have r: "fst (open_and_save env (stream f) []) = r"
    by (simp only: os fst_conv)
  show ?thesis
    using os nr
    by (simp add: remove_background_accepted [OF assms] r Let_def split: sum.splits)
qed

lemma remove_background_events:
  "\<exists>evs. trace (snd (snd (remove_background env req st))) = trace st @ evs \<and>
         (\<forall>png. Call_remove png \<in> set evs \<longrightarrow>
            (\<exists>f. files req ''image'' = Some f \<and>
                 fst (validate_image_file env (Some f)) = Inr (True, None) \<and>
                 fst (open_and_save env (stream f) []) = Inr png))"
proof (cases rule: remove_background_cases [where req = req and st = st and env = env])
  case options
  then show ?thesis by (simp add: remove_background_options)
next
  case not_ready
  then show ?thesis by (simp add: remove_background_not_ready)
next
  case (no_field sess)
  then show ?thesis by (simp add: remove_background_no_field)
next
  case (rejected sess f m)
  then show ?thesis by (simp add: remove_background_rejected)
next
  case (accepted sess f)
  from remove_background_accepted_events [OF accepted(2) accepted(1) accepted(3) accepted(4)]
  show ?thesis using accepted(3,4) by auto
qed

lemma remove_background_session:
  "rembg_session (snd (snd (remove_background env req st))) = rembg_session st"
proof (cases rule: remove_background_cases [where req = req and st = st and env = env])
  case options
  then show ?thesis by (simp add: remove_background_options)
next
  case not_ready
  then show ?thesis by (simp add: remove_background_not_ready)
next
  case (no_field sess)
  then show ?thesis by (simp add: remove_background_no_field)
next
  case (rejected sess f m)
  then show ?thesis by (simp add: remove_background_rejected)
next
  case (accepted sess f)
  show ?thesis
    by (simp add: remove_background_accepted [OF accepted(2) accepted(1) accepted(3) accepted(4)]
        Let_def split: prod.splits sum.splits)
qed

subsection \<open>The response does not depend on the clock or on earlier requests\<close>

lemma validate_image_file_clock:
  "validate_image_file (env\<lparr>now_isoformat := t, processing_time := p\<rparr>) upl =
   validate_image_file env upl"
  by (cases upl) (simp_all add: validate_image_file_None validate_image_file_Some)

lemma convert_clock:
  "convert (env\<lparr>now_isoformat := t, processing_time := p\<rparr>) img m = convert env img m"
  by (simp add: convert_def)

lemma open_and_save_clock:
  "fst (open_and_save (env\<lparr>now_isoformat := t, processing_time := p\<rparr>) d tr) =
   fst (open_and_save env d tr')"
  by (simp add: open_and_save_fst convert_clock cong: sum.case_cong if_cong)

lemma remove_background_response_indep:
  assumes "rembg_session st' = rembg_session st"
  shows "fst (remove_background (env\<lparr>now_isoformat := t, processing_time := p\<rparr>) req st') =
         fst (remove_background env req st)"
proof (cases rule: remove_background_cases [where req = req and st = st and env = env])
  case options
  then show ?thesis by (simp add: remove_background_options)
next
  case not_ready
  then show ?thesis using assms by (simp add: remove_background_not_ready)
next
  case (no_field sess)
  then show ?thesis using assms by (simp add: remove_background_no_field)
next
  case (rejected sess f m)
  then show ?thesis
    using assms by (simp add: remove_background_rejected validate_image_file_clock)
next
  case (accepted sess f)
  let ?env' = "env\<lparr>now_isoformat := t, processing_time := p\<rparr>"
  have s': "rembg_session st' = Some sess"
    using assms accepted(2) by simp
  have v': "fst (validate_image_file ?env' (Some f)) = Inr (True, None)"
    using accepted(4) by (simp add: validate_image_file_clock)
  have o: "fst (open_and_save ?env' (stream f) []) = fst (open_and_save env (stream f) [])"
    by (rule open_and_save_clock)
  have r: "rembg_remove ?env' = rembg_remove env"
    by simp
  show ?thesis
    unfolding remove_background_accepted_response [OF s' accepted(1) accepted(3) v']
      remove_background_accepted_response [OF accepted(2) accepted(1) accepted(3) accepted(4)] o r
    by (rule refl)
qed

subsection \<open>The sample inputs, evaluated\<close>

lemma post_image_simps:
  "request_method (post_image f) = POST" "files (post_image f) ''image'' = Some f"
  by (simp_all add: post_image_def)

lemma loaded_state_simps:
  "rembg_session loaded_state = Some (Session ''isnet-general-use'')" "trace loaded_state = []"
  by (simp_all add: loaded_state_def)

lemma upload_simps:
  "filename (upload name data) = name" "stream (upload name data) = data"
  "position (upload name data) = 0"
  by (simp_all add: upload_def)

lemma sample_open_and_save_jpeg:
  "open_and_save sample_env (0xFF # bs) tr =
     (Inr (0x89 # bs),
      tr @ [Call_Image_open (0xFF # bs), LogInfo ''Converting image from L to RGB'',
            Call_convert ''RGB'', Call_save_PNG])"
  by (simp add: open_and_save_def convert_def sample_env_def Let_def)

lemma sample_open_and_save_png:
  "open_and_save sample_env (0x89 # bs) tr =
     (Inr (0x89 # bs), tr @ [Call_Image_open (0x89 # bs), Call_save_PNG])"
  by (simp add: open_and_save_def convert_def sample_env_def Let_def)

lemma sample_open_and_save_text:
  "fst (open_and_save sample_env [0x68, 0x69] tr) =
     Inl (Exception ''UnidentifiedImageError'' ''cannot identify image file'')"
  by (simp add: open_and_save_def sample_env_def Let_def)

lemma sample_names_allowed:
  "allowed_file ''photo.jpg'' = Inr True" "allowed_file ''cat.PNG'' = Inr True"
  "allowed_file ''notes.png'' = Inr True" "allowed_file ''big.png'' = Inr True"
  by code_simp+

lemma sample_validate:
  assumes "allowed_file name = Inr True" and "length data \<le> MAX_FILE_SIZE"
  shows "fst (validate_image_file env (Some (upload name data))) = Inr (True, None)"
proof -
  have "name \<noteq> []"
    using assms(1) by (auto simp add: allowed_file_def)
  then show ?thesis
    using assms by (simp add: validate_image_file_Some upload_simps)
qed

lemma sample_cat_valid:
  "fst (validate_image_file env (Some (upload ''cat.PNG'' [0x89, 1, 2]))) = Inr (True, None)"
  by (rule sample_validate) (simp_all add: sample_names_allowed MAX_FILE_SIZE_def)

lemma sample_cat_response:
  "fst (remove_background sample_env (post_image (upload ''cat.PNG'' [0x89, 1, 2])) loaded_state) =
     \<lparr>body = File [0x89, 1, 2] ''image/png'' ''removed_bg.png'', status = 200\<rparr>"
proof -
  have r: "rembg_remove sample_env [0x89, 1, 2] (Session ''isnet-general-use'') True =
             Inr [0x89, 1, 2]"
    by (simp add: sample_env_def)
  show ?thesis
    by (simp add: remove_background_accepted_response
          [OF loaded_state_simps(1) post_image_simps sample_cat_valid] upload_simps
          sample_open_and_save_png r)
qed

lemma sample_photo_valid:
  "fst (validate_image_file env (Some (upload ''photo.jpg'' [0xFF, 7, 7]))) = Inr (True, None)"
  by (rule sample_validate) (simp_all add: sample_names_allowed MAX_FILE_SIZE_def)

lemma sample_photo_trace:
  "trace (snd (snd (remove_background sample_env (post_image (upload ''photo.jpg'' [0xFF, 7, 7]))
                      loaded_state))) =
     [LogInfo ''[2024-05-01T12:00:00] New background removal request'',
      LogInfo ''Processing image: photo.jpg'',
      Call_Image_open [0xFF, 7, 7],
      LogInfo ''Converting image from L to RGB'',
      Call_convert ''RGB'',
      Call_save_PNG,
      LogInfo ''Removing background...'',
      Call_remove [0x89, 7, 7],
      LogInfo ''Background removed successfully in 1.25s'']"
proof -
  have r: "rembg_remove sample_env [0x89, 7, 7] (Session ''isnet-general-use'') True =
             Inr [0x89, 7, 7]"
    by (simp add: sample_env_def)
  have c: "now_isoformat sample_env = ''2024-05-01T12:00:00''"
    "processing_time sample_env = ''1.25''" "secure_filename sample_env = (\<lambda>s. s)"
    by (simp_all add: sample_env_def)
  show ?thesis
    by (simp add: remove_background_accepted
          [OF loaded_state_simps(1) post_image_simps sample_photo_valid] upload_simps
          loaded_state_simps sample_open_and_save_jpeg r c Let_def)
qed

lemma sample_notes_valid:
  "fst (validate_image_file env (Some (upload ''notes.png'' [0x68, 0x69]))) = Inr (True, None)"
  by (rule sample_validate) (simp_all add: sample_names_allowed MAX_FILE_SIZE_def)

lemma oversized_png_rejected:
  "fst (validate_image_file env (Some oversized_png)) =
     Inr (False, Some ''File too large. Maximum size: 10.0MB'')"
proof -
  have n: "filename oversized_png = ''big.png''"
    and l: "length (stream oversized_png) = MAX_FILE_SIZE + 1"
    by (simp_all add: oversized_png_def upload_simps)
  show ?thesis
    by (simp add: validate_image_file_Some n l sample_names_allowed)
qed

subsection \<open>Claims about readiness and health\<close>

text \<open>
  Claim C2. While the inference session is uninitialised (\<^verbatim>\<open>rembg_session is None\<close>), every
  POST to \<^verbatim>\<open>/api/remove-bg\<close> is answered 503 "Service not ready", whatever the payload and
  the codec are: the request and its file are left untouched, and the only effects are
  the two log lines, so no validation, decoding or inference has run. In the same state
  the health check, when it computes its status, reports the model as \<^verbatim>\<open>not_loaded\<close>.
\<close>

theorem not_ready_503:
  assumes "rembg_session st = None" and "request_method req = POST"
  shows "remove_background env req st =
           (\<lparr>body = Json [(''error'', JStr ''Service not ready''),
                          (''message'', JStr ''Background removal model is not loaded'')],
             status = 503\<rparr>,
            req,
            st\<lparr>trace := trace st @
                 [LogInfo (''['' @ now_isoformat env @ ''] New background removal request''),
                  LogError ''Model not initialized'']\<rparr>) \<and>
         (health_fault env = None \<longrightarrow>
            health_check env st =
              (Inr \<lparr>body = Json [(''status'', JStr ''healthy''),
                                  (''model'', JStr ''not_loaded''),
                                  (''timestamp'', JStr (utcnow_isoformat env))],
                    status = 200\<rparr>, st))"
  using assms
  by (simp add: remove_background_def remove_background_try_def log_def
      service_not_ready_def health_check_def)

theorem not_ready_503_witness:
  "fst (remove_background sample_env (post_image (upload ''cat.png'' [0x89, 1, 2])) initial_state)
     = service_not_ready \<and>
   fst (health_check sample_env initial_state) =
     Inr \<lparr>body = Json [(''status'', JStr ''healthy''), (''model'', JStr ''not_loaded''),
                        (''timestamp'', JStr ''2024-05-01T10:00:00'')],
          status = 200\<rparr>"
  using not_ready_503 [of initial_state "post_image (upload ''cat.png'' [0x89, 1, 2])" sample_env]
  by (simp add: initial_state_def post_image_def sample_env_def service_not_ready_def)




subsection \<open>Claims about startup\<close>

text \<open>
  Claim C3. A failure to load the model at startup is fatal. If \<^verbatim>\<open>new_session\<close> raises,
  \<^verbatim>\<open>init_model\<close> logs and raises the same exception again, and the \<^verbatim>\<open>__main__\<close> block ends
  with that exception: \<^verbatim>\<open>app.run\<close> is never called and the session stays \<^verbatim>\<open>None\<close>. If
  \<^verbatim>\<open>new_session\<close> returns, the block calls it exactly once, stores the session, and only then
  either starts the listener or ends on a bad \<^verbatim>\<open>PORT\<close> without listening.
\<close>

theorem startup_failure_is_fatal:
  "(new_session env ''isnet-general-use'' = Inl e \<longrightarrow>
      init_model env st =
        (Inl e, st\<lparr>trace := trace st @
                         [LogInfo ''Initializing rembg model (isnet-general-use)...'',
                          Call_new_session ''isnet-general-use'',
                          LogError (''Failed to initialize model: '' @ str_of e)]\<rparr>) \<and>
      main env initial_state =
        (Raised e,
         \<lparr>rembg_session = None,
          trace = [LogInfo ''Initializing rembg model (isnet-general-use)...'',
                   Call_new_session ''isnet-general-use'',
                   LogError (''Failed to initialize model: '' @ str_of e)]\<rparr>)) \<and>
   (new_session env ''isnet-general-use'' = Inr s \<longrightarrow>
      (\<forall>port. fst (main env initial_state) = Serving port \<longrightarrow>
         snd (main env initial_state) =
           \<lparr>rembg_session = Some s,
            trace = [LogInfo ''Initializing rembg model (isnet-general-use)...'',
                     Call_new_session ''isnet-general-use'',
                     LogInfo ''Model initialized successfully!'',
                     Call_app_run port]\<rparr>) \<and>
      (\<forall>e'. fst (main env initial_state) = Raised e' \<longrightarrow>
         snd (main env initial_state) =
           \<lparr>rembg_session = Some s,
            trace = [LogInfo ''Initializing rembg model (isnet-general-use)...'',
                     Call_new_session ''isnet-general-use'',
                     LogInfo ''Model initialized successfully!'']\<rparr>))"
  by (auto simp add: init_model_def main_def log_def initial_state_def Let_def
      split: sum.splits option.splits)

theorem startup_failure_is_fatal_witness:
  "main (sample_env\<lparr>new_session := \<lambda>n. Inl (Exception ''ValueError'' ''no such model'')\<rparr>)
        initial_state =
     (Raised (Exception ''ValueError'' ''no such model''),
      \<lparr>rembg_session = None,
       trace = [LogInfo ''Initializing rembg model (isnet-general-use)...'',
                Call_new_session ''isnet-general-use'',
                LogError ''Failed to initialize model: no such model'']\<rparr>) \<and>
   snd (main sample_env initial_state) =
     \<lparr>rembg_session = Some (Session ''isnet-general-use''),
      trace = [LogInfo ''Initializing rembg model (isnet-general-use)...'',
               Call_new_session ''isnet-general-use'',
               LogInfo ''Model initialized successfully!'',
               Call_app_run 5000]\<rparr>"
proof -
  let ?bad = "sample_env\<lparr>new_session := \<lambda>n. Inl (Exception ''ValueError'' ''no such model'')\<rparr>"
  have a: "new_session ?bad ''isnet-general-use'' = Inl (Exception ''ValueError'' ''no such model'')"
    by simp
  have b: "new_session sample_env ''isnet-general-use'' = Inr (Session ''isnet-general-use'')"
    by (simp add: sample_env_def)
  have c: "fst (main sample_env initial_state) = Serving 5000"
    by (simp add: main_def init_model_def sample_env_def log_def initial_state_def)
  show ?thesis
    using startup_failure_is_fatal
            [of ?bad "Exception ''ValueError'' ''no such model''" initial_state]
          startup_failure_is_fatal [of sample_env _ _ "Session ''isnet-general-use''"]
          a b c
    by simp
qed

subsection \<open>Claims about the request handler\<close>

text \<open>
  Claim C9. Submitting the same request twice gives the same response twice: the
  response of the second submission, handled in the state the first one left behind and
  at another time, equals the response of the first. So a valid image that is answered 200
  is answered 200 again, with the same body. The handler never writes the global
  \<^verbatim>\<open>rembg_session\<close>: after each of the two requests it is what it was before. (The
  segmentation call is a function of its arguments here: the bytes, the session, the flag.)
\<close>

theorem resubmission_same_response:
  "fst (remove_background (env\<lparr>now_isoformat := t, processing_time := p\<rparr>) req
          (snd (snd (remove_background env req st)))) =
     fst (remove_background env req st) \<and>
   rembg_session (snd (snd (remove_background env req st))) = rembg_session st \<and>
   rembg_session (snd (snd (remove_background (env\<lparr>now_isoformat := t, processing_time := p\<rparr>) req
          (snd (snd (remove_background env req st)))))) = rembg_session st"
  by (simp add: remove_background_session remove_background_response_indep)

theorem resubmission_same_response_witness:
  "fst (remove_background sample_env (post_image (upload ''cat.PNG'' [0x89, 1, 2])) loaded_state) =
     \<lparr>body = File [0x89, 1, 2] ''image/png'' ''removed_bg.png'', status = 200\<rparr> \<and>
   fst (remove_background
          (sample_env\<lparr>now_isoformat := ''2024-05-01T12:00:07'', processing_time := ''0.98''\<rparr>)
          (post_image (upload ''cat.PNG'' [0x89, 1, 2]))
          (snd (snd (remove_background sample_env (post_image (upload ''cat.PNG'' [0x89, 1, 2]))
                       loaded_state)))) =
     \<lparr>body = File [0x89, 1, 2] ''image/png'' ''removed_bg.png'', status = 200\<rparr>"
  using resubmission_same_response
          [where env = sample_env and t = "''2024-05-01T12:00:07''" and p = "''0.98''"
             and req = "post_image (upload ''cat.PNG'' [0x89, 1, 2])" and st = loaded_state]
  by (simp only: sample_cat_response simp_thms)

text \<open>
  Claim C4. Whatever the handler passes to the segmentation call is the PNG encoding of
  an image in mode RGB or RGBA: the uploaded bytes were opened as an image; if its mode was
  neither RGB nor RGBA it was converted to RGB, otherwise it was kept; and the bytes passed
  on are what saving that image as PNG returned. This holds for every call of
  \<^verbatim>\<open>remove\<close> a request makes, so for every input that reaches that stage.
\<close>

theorem inference_input_is_rgb_png:
  assumes "Call_remove png \<in>
             set (drop (length (trace st)) (trace (snd (snd (remove_background env req st)))))"
  shows "\<exists>f img0 img.
           files req ''image'' = Some f \<and>
           Image_open env (stream f) = Inr img0 \<and>
           (if mode img0 \<in> {''RGB'', ''RGBA''} then img = img0
            else convert env img0 ''RGB'' = Inr img \<and> mode img = ''RGB'') \<and>
           mode img \<in> {''RGB'', ''RGBA''} \<and>
           save_PNG env img = Inr png"
proof -
  from remove_background_events [of env req st]
  obtain evs where t: "trace (snd (snd (remove_background env req st))) = trace st @ evs"
    and r: "\<forall>png. Call_remove png \<in> set evs \<longrightarrow>
            (\<exists>f. files req ''image'' = Some f \<and>
                 fst (validate_image_file env (Some f)) = Inr (True, None) \<and>
                 fst (open_and_save env (stream f) []) = Inr png)"
    by (elim exE conjE)
  from assms have mem: "Call_remove png \<in> set evs"
    unfolding t by simp
  from r have "Call_remove png \<in> set evs \<longrightarrow>
            (\<exists>f. files req ''image'' = Some f \<and>
                 fst (validate_image_file env (Some f)) = Inr (True, None) \<and>
                 fst (open_and_save env (stream f) []) = Inr png)"
    by (rule spec)
  from this mem have "\<exists>f. files req ''image'' = Some f \<and>
                 fst (validate_image_file env (Some f)) = Inr (True, None) \<and>
                 fst (open_and_save env (stream f) []) = Inr png"
    by (rule mp)
  then obtain f where f: "files req ''image'' = Some f"
    and o: "fst (open_and_save env (stream f) []) = Inr png"
    by (elim exE conjE)
  from open_and_save_Inr [OF o]
  obtain img0 img where i1: "Image_open env (stream f) = Inr img0"
    and i2: "if mode img0 \<in> {''RGB'', ''RGBA''} then img = img0
             else convert env img0 ''RGB'' = Inr img \<and> mode img = ''RGB''"
    and i3: "mode img \<in> {''RGB'', ''RGBA''}"
    and i4: "save_PNG env img = Inr png"
    by (elim exE conjE)
  show ?thesis
  proof (intro exI conjI)
    show "files req ''image'' = Some f" by (rule f)
    show "Image_open env (stream f) = Inr img0" by (rule i1)
    show "if mode img0 \<in> {''RGB'', ''RGBA''} then img = img0
          else convert env img0 ''RGB'' = Inr img \<and> mode img = ''RGB''" by (rule i2)
    show "mode img \<in> {''RGB'', ''RGBA''}" by (rule i3)
    show "save_PNG env img = Inr png" by (rule i4)
  qed
qed

theorem inference_input_is_rgb_png_witness:
  "Call_remove [0x89, 7, 7] \<in>
     set (drop (length (trace loaded_state))
            (trace (snd (snd (remove_background sample_env
                                (post_image (upload ''photo.jpg'' [0xFF, 7, 7])) loaded_state))))) \<and>
   (\<exists>f img0 img.
      files (post_image (upload ''photo.jpg'' [0xFF, 7, 7])) ''image'' = Some f \<and>
      Image_open sample_env (stream f) = Inr img0 \<and>
      (if mode img0 \<in> {''RGB'', ''RGBA''} then img = img0
       else convert sample_env img0 ''RGB'' = Inr img \<and> mode img = ''RGB'') \<and>
      mode img \<in> {''RGB'', ''RGBA''} \<and>
      save_PNG sample_env img = Inr [0x89, 7, 7])"
proof -
  have a: "Call_remove [0x89, 7, 7] \<in>
     set (drop (length (trace loaded_state))
            (trace (snd (snd (remove_background sample_env
                                (post_image (upload ''photo.jpg'' [0xFF, 7, 7])) loaded_state)))))"
    by (simp add: sample_photo_trace loaded_state_simps)
  show ?thesis
    by (rule conjI [OF a inference_input_is_rgb_png [OF a]])
qed

text \<open>
  Claim C5. An upload that passes validation but whose bytes cannot be opened, converted
  or saved as an image is answered 400 with error "Invalid image" and one fixed message,
  the same for every exception the codec raises, so no detail of the exception reaches the
  client; the answer is not 500, and the segmentation is not called.
\<close>

theorem malformed_image_400:
  assumes "rembg_session st = Some sess" and "request_method req = POST"
    and "files req ''image'' = Some f"
    and "fst (validate_image_file env (Some f)) = Inr (True, None)"
    and "fst (open_and_save env (stream f) []) = Inl e"
  shows "fst (remove_background env req st) =
           \<lparr>body = Json [(''error'', JStr ''Invalid image''),
                          (''message'', JStr
                             ''Could not process image file. Please ensure it's a valid image.'')],
             status = 400\<rparr> \<and>
         (\<forall>png. Call_remove png \<notin>
            set (drop (length (trace st)) (trace (snd (snd (remove_background env req st))))))"
proof -
  have resp: "fst (remove_background env req st) = invalid_image"
    by (simp add: remove_background_accepted_response [OF assms(1-4)] assms(5))
  from remove_background_accepted_events [OF assms(1-4)]
  obtain evs where t: "trace (snd (snd (remove_background env req st))) = trace st @ evs"
    and r: "\<forall>png. Call_remove png \<in> set evs \<longrightarrow>
                    fst (open_and_save env (stream f) []) = Inr png"
    by (elim exE conjE)
  have "\<forall>png. Call_remove png \<notin> set evs"
    using r by (simp add: assms(5))
  then show ?thesis
    by (simp add: resp t invalid_image_def)
qed

theorem malformed_image_400_witness:
  "fst (remove_background sample_env (post_image (upload ''notes.png'' [0x68, 0x69])) loaded_state) =
     \<lparr>body = Json [(''error'', JStr ''Invalid image''),
                    (''message'', JStr
                       ''Could not process image file. Please ensure it's a valid image.'')],
       status = 400\<rparr>"
proof -
  have o: "fst (open_and_save sample_env (stream (upload ''notes.png'' [0x68, 0x69])) []) =
             Inl (Exception ''UnidentifiedImageError'' ''cannot identify image file'')"
    by (simp only: upload_simps sample_open_and_save_text)
  from malformed_image_400
         [OF loaded_state_simps(1) post_image_simps(1) post_image_simps(2) sample_notes_valid o]
  show ?thesis
    by (rule conjunct1)
qed

subsection \<open>Oversized uploads\<close>

text \<open>
  Claim C1 says that every upload longer than the maximum is answered 413. The code
  does not do that. With the session loaded, an upload \<^verbatim>\<open>big.png\<close> of 10 MiB plus one byte
  passes the first three checks, is rejected by the size check, and the handler answers
  400 with error "Invalid file", as it does for every rejection by the validator. The 413
  response with error "File too large" exists, in the registered 413 error handler, but
  a rejection on the measured size never goes through it.
\<close>

theorem oversized_upload_is_400_not_413:
  "MAX_FILE_SIZE < length (stream oversized_png) \<and>
   fst (remove_background sample_env (post_image oversized_png) loaded_state) =
     \<lparr>body = Json [(''error'', JStr ''Invalid file''),
                    (''message'', JStr ''File too large. Maximum size: 10.0MB'')],
       status = 400\<rparr> \<and>
   status (fst (remove_background sample_env (post_image oversized_png) loaded_state)) \<noteq> 413"
proof -
  have l: "MAX_FILE_SIZE < length (stream oversized_png)"
    by (simp add: oversized_png_def upload_simps)
  have r: "fst (remove_background sample_env (post_image oversized_png) loaded_state) =
             invalid_file (Some ''File too large. Maximum size: 10.0MB'')"
    by (simp add: remove_background_rejected
          [OF loaded_state_simps(1) post_image_simps oversized_png_rejected])
  show ?thesis
    by (simp add: l r invalid_file_def)
qed

subsection \<open>Claims about the validator\<close>

text \<open>
  Claim C7. Validation touches nothing but the read position of the stream. The
  filename and the content are as before; the position is either untouched (when an
  earlier check fails) or put back to the start of the stream after the length was
  measured, which is where an upload's stream is when the handler receives it: a stream
  that was at its start is left exactly as it was. After a successful validation the
  position is 0 and a read returns the whole content, and that is what the handler then
  passes to \<^verbatim>\<open>Image.open\<close>. The validator takes and returns only the file object: it
  reaches no other state.
\<close>

theorem validate_image_file_stream:
  "(\<exists>f'. snd (validate_image_file env (Some f)) = Some f' \<and>
         filename f' = filename f \<and> stream f' = stream f \<and>
         (position f' = 0 \<or> f' = f) \<and>
         (position f = 0 \<longrightarrow> f' = f) \<and>
         (fst (validate_image_file env (Some f)) = Inr (True, None) \<longrightarrow>
            position f' = 0 \<and> fst (read f') = stream f)) \<and>
   snd (validate_image_file env None) = None \<and>
   (rembg_session st = Some sess \<and> request_method req = POST \<and> files req ''image'' = Some f \<and>
    fst (validate_image_file env (Some f)) = Inr (True, None) \<longrightarrow>
      Call_Image_open (stream f) \<in> set (trace (snd (snd (remove_background env req st)))))"
proof (intro conjI impI)
  let ?acc = "fst (validate_image_file env (Some f)) = Inr (True, None)"
  have rewound: "snd (validate_image_file env (Some f)) = Some (f\<lparr>position := 0\<rparr>) \<Longrightarrow>
      \<exists>f'. snd (validate_image_file env (Some f)) = Some f' \<and>
         filename f' = filename f \<and> stream f' = stream f \<and>
         (position f' = 0 \<or> f' = f) \<and>
         (position f = 0 \<longrightarrow> f' = f) \<and>
         (?acc \<longrightarrow> position f' = 0 \<and> fst (read f') = stream f)"
    by (rule exI [of _ "f\<lparr>position := 0\<rparr>"]) (simp add: rewind_at_start read_rewound)
  show "\<exists>f'. snd (validate_image_file env (Some f)) = Some f' \<and>
         filename f' = filename f \<and> stream f' = stream f \<and>
         (position f' = 0 \<or> f' = f) \<and>
         (position f = 0 \<longrightarrow> f' = f) \<and>
         (?acc \<longrightarrow> position f' = 0 \<and> fst (read f') = stream f)"
  proof (cases ?acc)
    case True
    from validate_image_file_accepts [OF True] show ?thesis
      by (rule rewound)
  next
    case False
    from validate_image_file_leaves [of env f] show ?thesis
    proof
      assume "snd (validate_image_file env (Some f)) = Some f"
      then show ?thesis
        using False by (intro exI [of _ f]) simp
    next
      assume "snd (validate_image_file env (Some f)) = Some (f\<lparr>position := 0\<rparr>)"
      then show ?thesis
        by (rule rewound)
    qed
  qed
  show "snd (validate_image_file env None) = None"
    by (simp add: validate_image_file_None)
next
  assume a: "rembg_session st = Some sess \<and> request_method req = POST \<and>
             files req ''image'' = Some f \<and>
             fst (validate_image_file env (Some f)) = Inr (True, None)"
  then have a1: "rembg_session st = Some sess" and a2: "request_method req = POST"
    and a3: "files req ''image'' = Some f"
    and a4: "fst (validate_image_file env (Some f)) = Inr (True, None)"
    by simp_all
  let ?tr1 = "trace st @
                [LogInfo (''['' @ now_isoformat env @ ''] New background removal request''),
                 LogInfo (''Processing image: '' @ secure_filename env (filename f))]"
  obtain r tr where os: "open_and_save env (stream f) ?tr1 = (r, tr)"
    by (cases "open_and_save env (stream f) ?tr1")
  have "Call_Image_open (stream f) \<in> set (snd (open_and_save env (stream f) ?tr1))"
    by (rule open_and_save_opens)
  then have mem: "Call_Image_open (stream f) \<in> set tr"
    by (simp only: os snd_conv)
  show "Call_Image_open (stream f) \<in> set (trace (snd (snd (remove_background env req st))))"
    using os mem
    by (simp add: remove_background_accepted [OF a1 a2 a3 a4] Let_def split: sum.splits)
qed

theorem validate_image_file_stream_witness:
  "\<exists>f'. snd (validate_image_file sample_env (Some partly_read_png)) = Some f' \<and>
        stream f' = [0x89, 1, 2] \<and> position f' = 0 \<and> fst (read f') = [0x89, 1, 2]"
proof -
  have acc: "fst (validate_image_file sample_env (Some partly_read_png)) = Inr (True, None)"
    by (simp add: validate_image_file_Some partly_read_png_def sample_names_allowed
        MAX_FILE_SIZE_def)
  have s: "stream partly_read_png = [0x89, 1, 2]"
    by (simp add: partly_read_png_def)
  from validate_image_file_stream [where f = partly_read_png and env = sample_env, THEN conjunct1]
  obtain f' where 1: "snd (validate_image_file sample_env (Some partly_read_png)) = Some f'"
    and 2: "stream f' = stream partly_read_png"
    and 3: "fst (validate_image_file sample_env (Some partly_read_png)) = Inr (True, None) \<longrightarrow>
              position f' = 0 \<and> fst (read f') = stream partly_read_png"
    by (elim exE conjE)
  from 3 acc have 4: "position f' = 0 \<and> fst (read f') = stream partly_read_png"
    by (rule mp)
  show ?thesis
  proof (intro exI conjI)
    show "snd (validate_image_file sample_env (Some partly_read_png)) = Some f'" by (rule 1)
    show "stream f' = [0x89, 1, 2]" using 2 by (simp only: s)
    show "position f' = 0" by (rule 4 [THEN conjunct1])
    show "fst (read f') = [0x89, 1, 2]" using 4 [THEN conjunct2] by (simp only: s)
  qed
qed

text \<open>
  Claim C6 says that a present file with an empty filename fails the second check, with
  the message "No file selected". The code does not do that: \<^verbatim>\<open>not file\<close> is already true
  for a \<^verbatim>\<open>FileStorage\<close> whose filename is empty, so such an upload gets "No file provided", and
  the branch for "No file selected" is never taken. The other checks are as the claim says
  (\<open>validate_image_file_Some\<close>).
\<close>

theorem validate_image_file_empty_filename:
  "validate_image_file env (Some \<lparr>filename = [], stream = data, position = p\<rparr>) =
     (Inr (False, Some ''No file provided''),
      Some \<lparr>filename = [], stream = data, position = p\<rparr>) \<and>
   fst (validate_image_file env (Some \<lparr>filename = [], stream = data, position = p\<rparr>)) \<noteq>
     Inr (False, Some ''No file selected'')"
  by (simp add: validate_image_file_Some)

end
